theory Spec2Isabelle
  imports Complex_Main "HOL-Library.Product_Lexorder"
begin

section \<open>The schema: types, tables, defaults\<close>

text \<open>
  The migration creates one enum and three tables. A column value is \<open>None\<close> for SQL
  NULL; \<open>NOT NULL\<close>, \<open>PRIMARY KEY\<close>, \<open>UNIQUE\<close> and \<open>REFERENCES\<close> are constraints
  checked after every statement (\<open>integrity_error\<close> below), as the database does, and not
  assumptions on the rows.

  \<^item> \<open>uuid\<close> values are strings (the client holds them as strings);
  \<^item> \<open>timestamptz\<close> is a number of microseconds;
  \<^item> \<open>date\<close> is the number yyyymmdd and \<open>time\<close> the number hhmm, encodings that keep the
    order of the calendar and of the clock;
  \<^item> \<open>decimal(10,2)\<close> is the number of hundredths (\<open>299.99\<close> is \<open>29999\<close>), of absolute
    value below \<open>10^10\<close>; \<open>integer\<close> is a signed 32-bit range.
\<close>

type_synonym uuid = string
type_synonym timestamptz = int
type_synonym date = nat
type_synonym time = nat

text \<open>\<^verbatim>\<open>CREATE TYPE booking_status AS ENUM ('pending', 'confirmed', 'cancelled')\<close>\<close>

datatype booking_status = Pending | Confirmed | Cancelled

definition booking_status_labels :: "string list" where
  "booking_status_labels = [''pending'', ''confirmed'', ''cancelled'']"

fun booking_status_label :: "booking_status \<Rightarrow> string" where
  "booking_status_label Pending = ''pending''"
| "booking_status_label Confirmed = ''confirmed''"
| "booking_status_label Cancelled = ''cancelled''"

record profiles_row =
  p_id :: "uuid option"
  p_username :: "string option"
  p_full_name :: "string option"
  p_avatar_url :: "string option"
  p_is_admin :: "bool option"
  p_created_at :: "timestamptz option"
  p_updated_at :: "timestamptz option"

record events_row =
  e_id :: "uuid option"
  e_title :: "string option"
  e_description :: "string option"
  e_date :: "date option"
  e_time :: "time option"
  e_location :: "string option"
  e_image_url :: "string option"
  e_price :: "int option"
  e_capacity :: "int option"
  e_category :: "string option"
  e_created_by :: "uuid option"
  e_created_at :: "timestamptz option"
  e_updated_at :: "timestamptz option"

record bookings_row =
  b_id :: "uuid option"
  b_event_id :: "uuid option"
  b_user_id :: "uuid option"
  b_status :: "booking_status option"
  b_preferences :: "string option"
  b_created_at :: "timestamptz option"
  b_updated_at :: "timestamptz option"

text \<open>
  The database: the identity provider's table \<open>auth.users\<close> (its ids only) and the three
  tables, each a list of rows in insertion order.
\<close>

record db =
  auth_users :: "uuid list"
  profiles :: "profiles_row list"
  events :: "events_row list"
  bookings :: "bookings_row list"

definition empty_db :: db where
  "empty_db = \<lparr>auth_users = [], profiles = [], events = [], bookings = []\<rparr>"

text \<open>
  A column of an INSERT: left out (the column's DEFAULT applies), an explicit NULL, or a
  value.
\<close>

datatype 'a col = Omitted | Null | Val 'a

fun resolve :: "'a option \<Rightarrow> 'a col \<Rightarrow> 'a option" where
  "resolve d Omitted = d"
| "resolve d Null = None"
| "resolve d (Val v) = Some v"

record events_cols =
  c_id :: "uuid col"
  c_title :: "string col"
  c_description :: "string col"
  c_date :: "date col"
  c_time :: "time col"
  c_location :: "string col"
  c_image_url :: "string col"
  c_price :: "int col"
  c_capacity :: "int col"
  c_category :: "string col"
  c_created_by :: "uuid col"
  c_created_at :: "timestamptz col"
  c_updated_at :: "timestamptz col"

record bookings_cols =
  bc_id :: "uuid col"
  bc_event_id :: "uuid col"
  bc_user_id :: "uuid col"
  bc_status :: "booking_status col"
  bc_preferences :: "string col"
  bc_created_at :: "timestamptz col"
  bc_updated_at :: "timestamptz col"

text \<open>
  The row an INSERT builds: \<open>now\<close> is the value of \<open>now()\<close> and \<open>gen\<close> the value of
  \<open>gen_random_uuid()\<close> for this row.
\<close>

definition events_new_row :: "timestamptz \<Rightarrow> uuid \<Rightarrow> events_cols \<Rightarrow> events_row" where
  "events_new_row now gen c =
     \<lparr>e_id = resolve (Some gen) (c_id c),
      e_title = resolve None (c_title c),
      e_description = resolve None (c_description c),
      e_date = resolve None (c_date c),
      e_time = resolve None (c_time c),
      e_location = resolve None (c_location c),
      e_image_url = resolve None (c_image_url c),
      e_price = resolve (Some 0) (c_price c),
      e_capacity = resolve (Some 0) (c_capacity c),
      e_category = resolve None (c_category c),
      e_created_by = resolve None (c_created_by c),
      e_created_at = resolve (Some now) (c_created_at c),
      e_updated_at = resolve (Some now) (c_updated_at c)\<rparr>"

definition bookings_new_row :: "timestamptz \<Rightarrow> uuid \<Rightarrow> bookings_cols \<Rightarrow> bookings_row" where
  "bookings_new_row now gen c =
     \<lparr>b_id = resolve (Some gen) (bc_id c),
      b_event_id = resolve None (bc_event_id c),
      b_user_id = resolve None (bc_user_id c),
      b_status = resolve (Some Pending) (bc_status c),
      b_preferences = resolve None (bc_preferences c),
      b_created_at = resolve (Some now) (bc_created_at c),
      b_updated_at = resolve (Some now) (bc_updated_at c)\<rparr>"

section \<open>Constraints\<close>

datatype db_error =
  Row_level_security_violation
| Not_null_violation
| Numeric_value_out_of_range
| Unique_violation
| Foreign_key_violation
| Fetch_failed

definition is_set :: "'a option \<Rightarrow> bool" where
  "is_set v = (v \<noteq> None)"

definition not_null_ok :: "db \<Rightarrow> bool" where
  "not_null_ok d =
     (list_all (\<lambda>p. is_set (p_id p)) (profiles d) \<and>
      list_all (\<lambda>e. is_set (e_id e) \<and> is_set (e_title e) \<and> is_set (e_date e) \<and>
                     is_set (e_time e) \<and> is_set (e_location e) \<and> is_set (e_price e) \<and>
                     is_set (e_capacity e)) (events d) \<and>
      list_all (\<lambda>b. is_set (b_id b)) (bookings d))"

definition in_decimal_10_2 :: "int option \<Rightarrow> bool" where
  "in_decimal_10_2 v = (case v of None \<Rightarrow> True | Some x \<Rightarrow> - (10 ^ 10) < x \<and> x < 10 ^ 10)"

definition in_integer :: "int option \<Rightarrow> bool" where
  "in_integer v = (case v of None \<Rightarrow> True | Some x \<Rightarrow> - (2 ^ 31) \<le> x \<and> x < 2 ^ 31)"

text \<open>The values of a row of \<open>events\<close> fit the types of their columns.\<close>

definition row_in_range :: "events_row \<Rightarrow> bool" where
  "row_in_range e = (in_decimal_10_2 (e_price e) \<and> in_integer (e_capacity e))"

definition range_ok :: "db \<Rightarrow> bool" where
  "range_ok d = list_all row_in_range (events d)"

definition unique_ok :: "db \<Rightarrow> bool" where
  "unique_ok d =
     (distinct (auth_users d) \<and>
      distinct (map p_id (profiles d)) \<and>
      distinct (filter is_set (map p_username (profiles d))) \<and>
      distinct (map e_id (events d)) \<and>
      distinct (map b_id (bookings d)))"

definition references :: "'a option \<Rightarrow> 'a option list \<Rightarrow> bool" where
  "references v keys = (case v of None \<Rightarrow> True | Some x \<Rightarrow> Some x \<in> set keys)"

definition foreign_keys_ok :: "db \<Rightarrow> bool" where
  "foreign_keys_ok d =
     (list_all (\<lambda>p. references (p_id p) (map Some (auth_users d))) (profiles d) \<and>
      list_all (\<lambda>e. references (e_created_by e) (map p_id (profiles d))) (events d) \<and>
      list_all (\<lambda>b. references (b_event_id b) (map e_id (events d)) \<and>
                     references (b_user_id b) (map p_id (profiles d))) (bookings d))"

text \<open>
  The first failure is the one reported: a value is converted to the type of its column
  when the statement computes it, before any constraint is looked at, so a value out of
  range comes first; then NOT NULL, then the unique indexes, then the foreign keys.
\<close>

definition integrity_error :: "db \<Rightarrow> db_error option" where
  "integrity_error d =
     (if \<not> range_ok d then Some Numeric_value_out_of_range
      else if \<not> not_null_ok d then Some Not_null_violation
      else if \<not> unique_ok d then Some Unique_violation
      else if \<not> foreign_keys_ok d then Some Foreign_key_violation
      else None)"

definition commit :: "db \<Rightarrow> db_error + db" where
  "commit d = (case integrity_error d of Some e \<Rightarrow> Inl e | None \<Rightarrow> Inr d)"

section \<open>Row-level security\<close>

text \<open>
  SQL conditions are three-valued: \<open>None\<close> is unknown. A policy admits a row when its
  expression is true, so unknown rejects. \<open>auth.uid()\<close> is the acting identity, NULL for a
  request without a session.
\<close>

definition sql_eq :: "'a option \<Rightarrow> 'a option \<Rightarrow> bool option" where
  "sql_eq a b = (case a of None \<Rightarrow> None
                 | Some x \<Rightarrow> (case b of None \<Rightarrow> None | Some y \<Rightarrow> Some (x = y)))"

definition sql_and :: "bool option \<Rightarrow> bool option \<Rightarrow> bool option" where
  "sql_and a b =
     (if a = Some False \<or> b = Some False then Some False
      else if a = Some True \<and> b = Some True then Some True
      else None)"

definition is_true :: "bool option \<Rightarrow> bool" where
  "is_true v = (v = Some True)"

text \<open>\<^verbatim>\<open>"Public profiles are viewable by everyone" ON profiles FOR SELECT USING (true)\<close>\<close>

definition Public_profiles_are_viewable_by_everyone ::
  "db \<Rightarrow> uuid option \<Rightarrow> profiles_row \<Rightarrow> bool option" where
  "Public_profiles_are_viewable_by_everyone d uid p = Some True"

text \<open>\<^verbatim>\<open>"Users can update own profile" ON profiles FOR UPDATE USING (auth.uid() = id)\<close>\<close>

definition Users_can_update_own_profile ::
  "db \<Rightarrow> uuid option \<Rightarrow> profiles_row \<Rightarrow> bool option" where
  "Users_can_update_own_profile d uid p = sql_eq uid (p_id p)"

text \<open>\<^verbatim>\<open>"Events are viewable by everyone" ON events FOR SELECT USING (true)\<close>\<close>

definition Events_are_viewable_by_everyone ::
  "db \<Rightarrow> uuid option \<Rightarrow> events_row \<Rightarrow> bool option" where
  "Events_are_viewable_by_everyone d uid e = Some True"

definition select_profiles :: "db \<Rightarrow> uuid option \<Rightarrow> profiles_row list" where
  "select_profiles d uid =
     filter (\<lambda>p. is_true (Public_profiles_are_viewable_by_everyone d uid p)) (profiles d)"

text \<open>
  \<^verbatim>\<open>EXISTS (SELECT 1 FROM profiles WHERE profiles.id = auth.uid() AND profiles.is_admin = true)\<close>:
  the subquery reads \<open>profiles\<close> as the acting identity does, through the SELECT policy of
  that table.
\<close>

definition exists_admin_profile :: "db \<Rightarrow> uuid option \<Rightarrow> bool option" where
  "exists_admin_profile d uid =
     Some (filter (\<lambda>p. is_true (sql_and (sql_eq (p_id p) uid) (sql_eq (p_is_admin p) (Some True))))
             (select_profiles d uid) \<noteq> [])"

text \<open>\<^verbatim>\<open>"Admins can insert events" ON events FOR INSERT WITH CHECK (EXISTS (...))\<close>\<close>

definition Admins_can_insert_events ::
  "db \<Rightarrow> uuid option \<Rightarrow> events_row \<Rightarrow> bool option" where
  "Admins_can_insert_events d uid e = exists_admin_profile d uid"

text \<open>\<^verbatim>\<open>"Admins can update events" ON events FOR UPDATE USING (EXISTS (...))\<close>\<close>

definition Admins_can_update_events ::
  "db \<Rightarrow> uuid option \<Rightarrow> events_row \<Rightarrow> bool option" where
  "Admins_can_update_events d uid e = exists_admin_profile d uid"

text \<open>\<^verbatim>\<open>"Users can view own bookings" ON bookings FOR SELECT USING (auth.uid() = user_id)\<close>\<close>

definition Users_can_view_own_bookings ::
  "db \<Rightarrow> uuid option \<Rightarrow> bookings_row \<Rightarrow> bool option" where
  "Users_can_view_own_bookings d uid b = sql_eq uid (b_user_id b)"

text \<open>\<^verbatim>\<open>"Users can insert own bookings" ON bookings FOR INSERT WITH CHECK (auth.uid() = user_id)\<close>\<close>

definition Users_can_insert_own_bookings ::
  "db \<Rightarrow> uuid option \<Rightarrow> bookings_row \<Rightarrow> bool option" where
  "Users_can_insert_own_bookings d uid b = sql_eq uid (b_user_id b)"

text \<open>\<^verbatim>\<open>"Users can update own bookings" ON bookings FOR UPDATE USING (auth.uid() = user_id)\<close>\<close>

definition Users_can_update_own_bookings ::
  "db \<Rightarrow> uuid option \<Rightarrow> bookings_row \<Rightarrow> bool option" where
  "Users_can_update_own_bookings d uid b = sql_eq uid (b_user_id b)"

section \<open>Statements\<close>

text \<open>
  Row-level security is enabled on the three tables, and every policy is permissive, so a
  statement of a client sees or writes a row only if a policy of its command admits it; a
  command with no policy (DELETE everywhere, INSERT on \<open>profiles\<close>) admits nothing.
  The statements below are those that a policy, the trigger or the migration allows;
  deleting an identity at the identity provider, with its cascade, is left out.
\<close>

subsection \<open>SELECT\<close>

definition select_events :: "db \<Rightarrow> uuid option \<Rightarrow> events_row list" where
  "select_events d uid =
     filter (\<lambda>e. is_true (Events_are_viewable_by_everyone d uid e)) (events d)"

definition select_bookings :: "db \<Rightarrow> uuid option \<Rightarrow> bookings_row list" where
  "select_bookings d uid =
     filter (\<lambda>b. is_true (Users_can_view_own_bookings d uid b)) (bookings d)"

subsection \<open>INSERT\<close>

text \<open>
  The values of the new row are converted to the types of their columns first (a value
  out of range is an error), then the row is checked against the WITH CHECK expression
  (a failure is an error), then against the constraints. The columns of \<open>bookings\<close> have
  no type with a range in this model.
\<close>

definition insert_events ::
  "db \<Rightarrow> uuid option \<Rightarrow> timestamptz \<Rightarrow> uuid \<Rightarrow> events_cols \<Rightarrow> db_error + db" where
  "insert_events d uid now gen c =
     (let row = events_new_row now gen c in
      if \<not> row_in_range row then Inl Numeric_value_out_of_range
      else if \<not> is_true (Admins_can_insert_events d uid row) then Inl Row_level_security_violation
      else commit (d\<lparr>events := events d @ [row]\<rparr>))"

definition insert_bookings ::
  "db \<Rightarrow> uuid option \<Rightarrow> timestamptz \<Rightarrow> uuid \<Rightarrow> bookings_cols \<Rightarrow> db_error + db" where
  "insert_bookings d uid now gen c =
     (let row = bookings_new_row now gen c in
      if \<not> is_true (Users_can_insert_own_bookings d uid row) then Inl Row_level_security_violation
      else commit (d\<lparr>bookings := bookings d @ [row]\<rparr>))"

subsection \<open>UPDATE\<close>

text \<open>
  \<^verbatim>\<open>UPDATE t SET ... WHERE ...\<close>: \<open>wher\<close> is the WHERE condition and \<open>setf\<close> the SET
  clause, from the old row to the new one. The rows the statement touches are those that
  the SELECT policy and the USING expression of the UPDATE policy admit and that satisfy
  WHERE; the others are skipped silently. None of the UPDATE policies has a WITH CHECK
  expression, so its USING expression is also applied to each new row, where a failure is
  an error.
\<close>

definition profiles_update_target ::
  "db \<Rightarrow> uuid option \<Rightarrow> (profiles_row \<Rightarrow> bool) \<Rightarrow> profiles_row \<Rightarrow> bool" where
  "profiles_update_target d uid wher p =
     (is_true (Public_profiles_are_viewable_by_everyone d uid p) \<and>
      is_true (Users_can_update_own_profile d uid p) \<and> wher p)"

definition update_profiles ::
  "db \<Rightarrow> uuid option \<Rightarrow> (profiles_row \<Rightarrow> bool) \<Rightarrow> (profiles_row \<Rightarrow> profiles_row)
    \<Rightarrow> db_error + db" where
  "update_profiles d uid wher setf =
     (if list_ex (\<lambda>p. profiles_update_target d uid wher p \<and>
                      \<not> is_true (Users_can_update_own_profile d uid (setf p))) (profiles d)
      then Inl Row_level_security_violation
      else commit (d\<lparr>profiles :=
             map (\<lambda>p. if profiles_update_target d uid wher p then setf p else p) (profiles d)\<rparr>))"

definition events_update_target ::
  "db \<Rightarrow> uuid option \<Rightarrow> (events_row \<Rightarrow> bool) \<Rightarrow> events_row \<Rightarrow> bool" where
  "events_update_target d uid wher e =
     (is_true (Events_are_viewable_by_everyone d uid e) \<and>
      is_true (Admins_can_update_events d uid e) \<and> wher e)"

definition update_events ::
  "db \<Rightarrow> uuid option \<Rightarrow> (events_row \<Rightarrow> bool) \<Rightarrow> (events_row \<Rightarrow> events_row)
    \<Rightarrow> db_error + db" where
  "update_events d uid wher setf =
     (if list_ex (\<lambda>e. events_update_target d uid wher e \<and>
                      \<not> is_true (Admins_can_update_events d uid (setf e))) (events d)
      then Inl Row_level_security_violation
      else commit (d\<lparr>events :=
             map (\<lambda>e. if events_update_target d uid wher e then setf e else e) (events d)\<rparr>))"

definition bookings_update_target ::
  "db \<Rightarrow> uuid option \<Rightarrow> (bookings_row \<Rightarrow> bool) \<Rightarrow> bookings_row \<Rightarrow> bool" where
  "bookings_update_target d uid wher b =
     (is_true (Users_can_view_own_bookings d uid b) \<and>
      is_true (Users_can_update_own_bookings d uid b) \<and> wher b)"

definition update_bookings ::
  "db \<Rightarrow> uuid option \<Rightarrow> (bookings_row \<Rightarrow> bool) \<Rightarrow> (bookings_row \<Rightarrow> bookings_row)
    \<Rightarrow> db_error + db" where
  "update_bookings d uid wher setf =
     (if list_ex (\<lambda>b. bookings_update_target d uid wher b \<and>
                      \<not> is_true (Users_can_update_own_bookings d uid (setf b))) (bookings d)
      then Inl Row_level_security_violation
      else commit (d\<lparr>bookings :=
             map (\<lambda>b. if bookings_update_target d uid wher b then setf b else b) (bookings d)\<rparr>))"


subsection \<open>The trigger on new identities\<close>

text \<open>
  \<open>handle_new_user\<close> runs after an insert on \<open>auth.users\<close>, as its definer (row-level
  security does not apply), and inserts \<open>(id, full_name, avatar_url)\<close> into \<open>profiles\<close>;
  the other columns take their defaults. \<open>full_name\<close> and \<open>avatar_url\<close> are the two
  fields read from the new identity's metadata, NULL when absent.
\<close>

definition handle_new_user ::
  "db \<Rightarrow> timestamptz \<Rightarrow> uuid \<Rightarrow> string option \<Rightarrow> string option \<Rightarrow> db" where
  "handle_new_user d now new_id full_name avatar_url =
     d\<lparr>profiles := profiles d @
        [\<lparr>p_id = Some new_id, p_username = None, p_full_name = full_name,
          p_avatar_url = avatar_url, p_is_admin = Some False,
          p_created_at = Some now, p_updated_at = Some now\<rparr>]\<rparr>"

definition on_auth_user_created ::
  "db \<Rightarrow> timestamptz \<Rightarrow> uuid \<Rightarrow> string option \<Rightarrow> string option \<Rightarrow> db_error + db" where
  "on_auth_user_created d now new_id full_name avatar_url =
     commit (handle_new_user (d\<lparr>auth_users := auth_users d @ [new_id]\<rparr>)
               now new_id full_name avatar_url)"

subsection \<open>The sample data of the migration\<close>

definition blank_event :: events_cols where
  "blank_event =
     \<lparr>c_id = Omitted, c_title = Omitted, c_description = Omitted, c_date = Omitted,
      c_time = Omitted, c_location = Omitted, c_image_url = Omitted, c_price = Omitted,
      c_capacity = Omitted, c_category = Omitted, c_created_by = Omitted,
      c_created_at = Omitted, c_updated_at = Omitted\<rparr>"

text \<open>
  \<^verbatim>\<open>INSERT INTO events (title, description, date, time, location, image_url, price,
  capacity, category) VALUES ...\<close>
\<close>

definition sample_event ::
  "string \<Rightarrow> string \<Rightarrow> date \<Rightarrow> time \<Rightarrow> string \<Rightarrow> string \<Rightarrow> int \<Rightarrow> int \<Rightarrow> string \<Rightarrow> events_cols" where
  "sample_event title description dat tim location image_url price capacity category =
     blank_event\<lparr>c_title := Val title, c_description := Val description, c_date := Val dat,
       c_time := Val tim, c_location := Val location, c_image_url := Val image_url,
       c_price := Val price, c_capacity := Val capacity, c_category := Val category\<rparr>"

definition sample_events :: "events_cols list" where
  "sample_events =
    [sample_event ''Tech Conference 2024''
       ''Join us for the biggest tech conference of the year featuring industry leaders and innovative workshops.''
       20240415 900 ''Silicon Valley Convention Center''
       ''https://images.unsplash.com/photo-1505373877841-8d25f7d46678?ixlib=rb-1.2.1&auto=format&fit=crop&w=1600&q=80''
       29999 500 ''Technology'',
     sample_event ''Music Festival''
       ''Experience an unforgettable weekend of live music performances from top artists across multiple genres.''
       20240520 1600 ''Central Park''
       ''https://images.unsplash.com/photo-1459749411175-04bf5292ceea?ixlib=rb-1.2.1&auto=format&fit=crop&w=1600&q=80''
       14999 1000 ''Music'',
     sample_event ''Food & Wine Festival''
       ''Savor exquisite cuisines and premium wines from around the world in this gastronomic celebration.''
       20240610 1400 ''Downtown Food District''
       ''https://images.unsplash.com/photo-1555244162-803834f70033?ixlib=rb-1.2.1&auto=format&fit=crop&w=1600&q=80''
       8999 300 ''Food & Drink'',
     sample_event ''Art Exhibition''
       ''Discover contemporary masterpieces from emerging artists around the globe.''
       20240701 1000 ''Modern Art Gallery''
       ''https://images.unsplash.com/photo-1531243269054-5ebf6f34081e?ixlib=rb-1.2.1&auto=format&fit=crop&w=1600&q=80''
       2500 200 ''Art'',
     sample_event ''Startup Pitch Night''
       ''Watch innovative startups pitch their ideas to top investors.''
       20240715 1800 ''Innovation Hub''
       ''https://images.unsplash.com/photo-1559136555-9303baea8ebd?ixlib=rb-1.2.1&auto=format&fit=crop&w=1600&q=80''
       5000 150 ''Business'',
     sample_event ''Wellness Retreat''
       ''A day of mindfulness, yoga, and healthy living workshops.''
       20240801 800 ''Serenity Gardens''
       ''https://images.unsplash.com/photo-1544367567-0f2fcb009e0b?ixlib=rb-1.2.1&auto=format&fit=crop&w=1600&q=80''
       19999 100 ''Wellness'',
     sample_event ''Comedy Night''
       ''Laugh out loud with top stand-up comedians.''
       20240815 2000 ''Laugh Factory''
       ''https://images.unsplash.com/photo-1527224857830-43a7acc85260?ixlib=rb-1.2.1&auto=format&fit=crop&w=1600&q=80''
       4500 250 ''Entertainment'']"

text \<open>
  The migration runs as the owner of the tables, whom row-level security does not bind:
  the seven rows are inserted in one statement and checked against the constraints only.
  \<open>gen i\<close> is the value of \<open>gen_random_uuid()\<close> for the \<open>i\<close>-th row.
\<close>

definition migration :: "timestamptz \<Rightarrow> (nat \<Rightarrow> uuid) \<Rightarrow> db_error + db" where
  "migration now gen =
     commit (empty_db\<lparr>events :=
       map (\<lambda>(i, c). events_new_row now (gen i) c) (enumerate 0 sample_events)\<rparr>)"

subsection \<open>Sequences of statements\<close>

datatype db_op =
  Sign_up timestamptz uuid "string option" "string option"
| Update_profiles "uuid option" "profiles_row \<Rightarrow> bool" "profiles_row \<Rightarrow> profiles_row"
| Insert_events "uuid option" timestamptz uuid events_cols
| Update_events "uuid option" "events_row \<Rightarrow> bool" "events_row \<Rightarrow> events_row"
| Insert_bookings "uuid option" timestamptz uuid bookings_cols
| Update_bookings "uuid option" "bookings_row \<Rightarrow> bool" "bookings_row \<Rightarrow> bookings_row"

fun db_step :: "db \<Rightarrow> db_op \<Rightarrow> db_error + db" where
  "db_step d (Sign_up now new_id full_name avatar_url) =
     on_auth_user_created d now new_id full_name avatar_url"
| "db_step d (Update_profiles uid wher setf) = update_profiles d uid wher setf"
| "db_step d (Insert_events uid now gen c) = insert_events d uid now gen c"
| "db_step d (Update_events uid wher setf) = update_events d uid wher setf"
| "db_step d (Insert_bookings uid now gen c) = insert_bookings d uid now gen c"
| "db_step d (Update_bookings uid wher setf) = update_bookings d uid wher setf"

text \<open>A failed statement aborts the sequence.\<close>

fun db_run :: "db_error + db \<Rightarrow> db_op list \<Rightarrow> db_error + db" where
  "db_run r [] = r"
| "db_run (Inl e) (x # xs) = Inl e"
| "db_run (Inr d) (x # xs) = db_run (db_step d x) xs"

section \<open>The client\<close>

subsection \<open>Types\<close>

text \<open>
  The client's \<open>Event\<close>. Its fields hold what the response of the backend holds, so a field
  read from a nullable column can be \<open>null\<close> (\<open>None\<close>) at run time; \<open>date\<close> is the string
  that \<open>toLocaleDateString\<close> returns and \<open>registeredCount\<close> a number.
\<close>

record Event =
  ev_id :: "string option"
  ev_title :: "string option"
  ev_description :: "string option"
  ev_date :: string
  ev_time :: "time option"
  ev_location :: "string option"
  ev_imageUrl :: "string option"
  ev_price :: "int option"
  ev_capacity :: "int option"
  ev_registeredCount :: int

record User =
  u_id :: string
  u_email :: string

text \<open>\<^verbatim>\<open>status: 'pending' | 'confirmed' | 'declined'\<close> of the client's \<open>Booking\<close>.\<close>

datatype Booking_status = Booking_pending | Booking_confirmed | Booking_declined

fun Booking_status_label :: "Booking_status \<Rightarrow> string" where
  "Booking_status_label Booking_pending = ''pending''"
| "Booking_status_label Booking_confirmed = ''confirmed''"
| "Booking_status_label Booking_declined = ''declined''"

definition Booking_status_labels :: "string list" where
  "Booking_status_labels = [''pending'', ''confirmed'', ''declined'']"

record Booking =
  bk_id :: string
  bk_eventId :: string
  bk_userId :: string
  bk_status :: Booking_status
  bk_createdAt :: string

record BookingFormData =
  fd_name :: string
  fd_email :: string
  fd_preferences :: string

text \<open>The state of \<open>App\<close>; \<open>toasts\<close> records the calls of \<open>toast.error\<close>.\<close>

record app_state =
  st_events :: "Event list"
  isModalOpen :: bool
  isAuthModalOpen :: bool
  selectedEventId :: "string option"
  searchTerm :: string
  currentPage :: int
  totalCount :: int
  isLoading :: bool
  toasts :: "string list"

text \<open>The state of \<open>BookingModal\<close>.\<close>

record modal_state =
  formData :: BookingFormData
  isSubmitting :: bool
  isSuccess :: bool

text \<open>How a promise settles.\<close>

datatype promise = Resolved | Rejected db_error

subsection \<open>Listing events\<close>

definition ITEMS_PER_PAGE :: int where
  "ITEMS_PER_PAGE = 9"

text \<open>
  The request that \<open>fetchEvents\<close> builds for the page:
  \<^verbatim>\<open>.range((currentPage - 1) * ITEMS_PER_PAGE, currentPage * ITEMS_PER_PAGE - 1)
  .order('date', { ascending: true })\<close>
\<close>

record range_query =
  q_from :: int
  q_to :: int
  q_order :: string
  q_ascending :: bool

definition events_page_query :: "int \<Rightarrow> range_query" where
  "events_page_query page =
     \<lparr>q_from = (page - 1) * ITEMS_PER_PAGE, q_to = page * ITEMS_PER_PAGE - 1,
      q_order = ''date'', q_ascending = True\<rparr>"

text \<open>
  The backend's answer to such a request on \<open>events\<close>: the rows the acting identity may
  see, ordered by \<open>date\<close> (ascending puts NULL last), from offset \<open>q_from\<close> to offset
  \<open>q_to\<close>, both included. The database leaves the order of rows with equal dates open;
  the model keeps their table order. A negative offset or limit is an error of the
  database. Only ascending order by date is requested by the client; another order is
  answered in table order.
\<close>

definition date_key :: "events_row \<Rightarrow> bool \<times> date" where
  "date_key e = (case e_date e of None \<Rightarrow> (True, 0) | Some d \<Rightarrow> (False, d))"

datatype fetch_error = Backend_error db_error | Range_error

definition run_events_page_query ::
  "db \<Rightarrow> uuid option \<Rightarrow> range_query \<Rightarrow> fetch_error + events_row list" where
  "run_events_page_query d uid q =
     (if q_from q < 0 \<or> q_to q - q_from q + 1 < 0 then Inl Range_error
      else Inr (take (nat (q_to q - q_from q + 1)) (drop (nat (q_from q))
                 (if q_order q = ''date'' \<and> q_ascending q
                  then sort_key date_key (select_events d uid)
                  else select_events d uid))))"

text \<open>
  \<^verbatim>\<open>.select('*', { count: 'exact', head: true })\<close>: the number of rows the acting identity
  may see.
\<close>

definition count_events :: "db \<Rightarrow> uuid option \<Rightarrow> int" where
  "count_events d uid = int (length (select_events d uid))"

text \<open>
  The map over the response. \<open>toLocaleDateString\<close> depends on the browser's locale and is
  a parameter. Only nine columns are selected, and \<open>registeredCount\<close> is the literal 0.
\<close>

definition transformedEvent :: "(date option \<Rightarrow> string) \<Rightarrow> events_row \<Rightarrow> Event" where
  "transformedEvent toLocaleDateString event =
     \<lparr>ev_id = e_id event,
      ev_title = e_title event,
      ev_description = e_description event,
      ev_date = toLocaleDateString (e_date event),
      ev_time = e_time event,
      ev_location = e_location event,
      ev_imageUrl = e_image_url event,
      ev_price = e_price event,
      ev_capacity = e_capacity event,
      ev_registeredCount = 0\<rparr>"

definition transformedEvents :: "(date option \<Rightarrow> string) \<Rightarrow> events_row list \<Rightarrow> Event list" where
  "transformedEvents toLocaleDateString data = map (transformedEvent toLocaleDateString) data"

text \<open>
  \<open>fetchEvents\<close>. \<open>net1\<close> and \<open>net2\<close> say whether the count request and the page request
  reach the backend. A failed count request yields no count, and \<open>count || 0\<close> stores 0;
  a failed page request throws, which leaves the list as it was and shows a toast. In
  both cases \<open>finally\<close> clears \<open>isLoading\<close>.
\<close>

definition fetchEvents ::
  "(date option \<Rightarrow> string) \<Rightarrow> db \<Rightarrow> uuid option \<Rightarrow> bool \<Rightarrow> bool \<Rightarrow> app_state \<Rightarrow> app_state" where
  "fetchEvents toLocaleDateString d uid net1 net2 st =
     (let st1 = st\<lparr>isLoading := True\<rparr>;
          count = (if net1 then Some (count_events d uid) else None);
          st2 = st1\<lparr>totalCount := (case count of None \<Rightarrow> 0 | Some n \<Rightarrow> n)\<rparr>;
          response = (if net2 then run_events_page_query d uid (events_page_query (currentPage st))
                      else Inl (Backend_error Fetch_failed))
      in case response of
           Inl error \<Rightarrow> st2\<lparr>toasts := toasts st2 @ [''Failed to load events''], isLoading := False\<rparr>
         | Inr data \<Rightarrow> st2\<lparr>st_events := transformedEvents toLocaleDateString data,
                           isLoading := False\<rparr>)"

text \<open>\<^verbatim>\<open>const totalPages = Math.ceil(totalCount / ITEMS_PER_PAGE)\<close>\<close>

definition totalPages :: "int \<Rightarrow> int" where
  "totalPages count = \<lceil>real_of_int count / real_of_int ITEMS_PER_PAGE\<rceil>"

subsection \<open>The event card\<close>

text \<open>
  \<open>registeredCount >= capacity\<close> on JavaScript values: in a numeric comparison \<open>null\<close>
  counts as 0.
\<close>

definition js_ge :: "int \<Rightarrow> int option \<Rightarrow> bool" where
  "js_ge a b = (a \<ge> (case b of None \<Rightarrow> 0 | Some n \<Rightarrow> n))"

definition EventCard_disabled :: "Event \<Rightarrow> bool" where
  "EventCard_disabled event = js_ge (ev_registeredCount event) (ev_capacity event)"

definition EventCard_label :: "Event \<Rightarrow> string" where
  "EventCard_label event =
     (if js_ge (ev_registeredCount event) (ev_capacity event) then ''Sold Out'' else ''Book Now'')"

subsection \<open>Booking\<close>

definition handleBookEvent :: "User option \<Rightarrow> string option \<Rightarrow> app_state \<Rightarrow> app_state" where
  "handleBookEvent user eventId st =
     (case user of
        None \<Rightarrow> st\<lparr>isAuthModalOpen := True\<rparr>
      | Some u \<Rightarrow> st\<lparr>selectedEventId := eventId, isModalOpen := True\<rparr>)"

text \<open>The row that \<open>handleBookingSubmit\<close> sends: four columns, the others left out.\<close>

definition booking_request :: "string \<Rightarrow> string \<Rightarrow> string \<Rightarrow> bookings_cols" where
  "booking_request event_id user_id preferences =
     \<lparr>bc_id = Omitted, bc_event_id = Val event_id, bc_user_id = Val user_id,
      bc_status = Val Pending, bc_preferences = Val preferences,
      bc_created_at = Omitted, bc_updated_at = Omitted\<rparr>"

text \<open>
  \<open>handleBookingSubmit\<close>. \<open>user\<close> comes from the authentication context; \<open>session\<close> is the
  identity the backend sees for the request (\<open>auth.uid()\<close>), and \<open>net\<close> says whether the
  request reaches the backend. The result is how the returned promise settles, the
  toasts shown, and the database afterwards. \<open>!selectedEventId\<close> holds for \<open>null\<close> and
  for the empty string; in both early-return cases the promise resolves.
\<close>

definition handleBookingSubmit ::
  "User option \<Rightarrow> string option \<Rightarrow> BookingFormData \<Rightarrow> uuid option \<Rightarrow> bool \<Rightarrow> timestamptz \<Rightarrow> uuid
    \<Rightarrow> db \<Rightarrow> promise \<times> string list \<times> db" where
  "handleBookingSubmit user selected form session net now gen d =
     (case user of
        None \<Rightarrow> (Resolved, [], d)
      | Some u \<Rightarrow>
          (case selected of
             None \<Rightarrow> (Resolved, [], d)
           | Some event_id \<Rightarrow>
               if event_id = [] then (Resolved, [], d)
               else
                 (case (if net
                        then insert_bookings d session now gen
                               (booking_request event_id (u_id u) (fd_preferences form))
                        else Inl Fetch_failed) of
                    Inl error \<Rightarrow> (Rejected error, [''Failed to submit booking''], d)
                  | Inr d' \<Rightarrow> (Resolved, [], d'))))"

text \<open>
  \<open>handleSubmit\<close> of the modal, given how the promise of \<open>onSubmit\<close> settles: the new state
  of the modal and the delays of the timers it sets.
\<close>

definition handleSubmit :: "modal_state \<Rightarrow> promise \<Rightarrow> modal_state \<times> nat list" where
  "handleSubmit m outcome =
     (let m1 = m\<lparr>isSubmitting := True\<rparr> in
      case outcome of
        Resolved \<Rightarrow> (m1\<lparr>isSuccess := True, isSubmitting := False\<rparr>, [2000])
      | Rejected error \<Rightarrow> (m1\<lparr>isSubmitting := False\<rparr>, []))"

definition empty_form :: BookingFormData where
  "empty_form = \<lparr>fd_name = [], fd_email = [], fd_preferences = []\<rparr>"

text \<open>The callback of the timer: the only place where the modal calls \<open>onClose\<close> itself.\<close>

definition success_timeout :: "app_state \<times> modal_state \<Rightarrow> app_state \<times> modal_state" where
  "success_timeout s =
     (case s of (st, m) \<Rightarrow>
        (st\<lparr>isModalOpen := False\<rparr>, m\<lparr>isSuccess := False, formData := empty_form\<rparr>))"

text \<open>
  What the modal renders: nothing, the success view, or the form with its field values
  and the \<open>disabled\<close> attribute of the submit button.
\<close>

datatype modal_view = No_modal | Success_view | Form_view BookingFormData bool

definition BookingModal :: "bool \<Rightarrow> modal_state \<Rightarrow> modal_view" where
  "BookingModal isOpen m =
     (if \<not> isOpen then No_modal
      else if isSuccess m then Success_view
      else Form_view (formData m) (isSubmitting m))"

text \<open>
  Submitting the form of the modal inside \<open>App\<close>: \<open>onSubmit\<close> is \<open>handleBookingSubmit\<close>
  with the form data of the modal.
\<close>

definition submit_form ::
  "User option \<Rightarrow> uuid option \<Rightarrow> bool \<Rightarrow> timestamptz \<Rightarrow> uuid \<Rightarrow> app_state \<times> modal_state \<times> db
    \<Rightarrow> (app_state \<times> modal_state \<times> db) \<times> nat list" where
  "submit_form user session net now gen s =
     (case s of (st, m, d) \<Rightarrow>
        (case handleBookingSubmit user (selectedEventId st) (formData m) session net now gen d of
           (outcome, shown, d') \<Rightarrow>
             (case handleSubmit m outcome of
                (m', timers) \<Rightarrow> ((st\<lparr>toasts := toasts st @ shown\<rparr>, m', d'), timers))))"

section \<open>Conditions in the words of the specification\<close>


text \<open>
  \<open>capacity \<ge> 0\<close> and \<open>price \<ge> 0\<close> in every row of \<open>events\<close>, as the data model of the
  specification states them; NULL satisfies neither.
\<close>

definition nonneg :: "int option \<Rightarrow> bool" where
  "nonneg v = (case v of None \<Rightarrow> False | Some x \<Rightarrow> 0 \<le> x)"

definition row_nonneg :: "events_row \<Rightarrow> bool" where
  "row_nonneg e = (nonneg (e_capacity e) \<and> nonneg (e_price e))"

definition events_nonneg :: "db \<Rightarrow> bool" where
  "events_nonneg d = list_all row_nonneg (events d)"

text \<open>
  A statement writes no negative capacity or price: an INSERT on \<open>events\<close> gives none,
  and the SET clause of an UPDATE on \<open>events\<close> turns no row without a negative value into
  a row with one.
\<close>

definition col_nonneg :: "int col \<Rightarrow> bool" where
  "col_nonneg c = (case c of Val v \<Rightarrow> 0 \<le> v | _ \<Rightarrow> True)"

fun writes_nonneg :: "db_op \<Rightarrow> bool" where
  "writes_nonneg (Insert_events uid now gen c) = (col_nonneg (c_price c) \<and> col_nonneg (c_capacity c))"
| "writes_nonneg (Update_events uid wher setf) = (\<forall>e. row_nonneg e \<longrightarrow> row_nonneg (setf e))"
| "writes_nonneg other = True"

text \<open>
  The status transitions of the specification: \<open>pending \<rightarrow> confirmed\<close> and
  \<open>pending \<rightarrow> cancelled\<close>.
\<close>

fun allowed_transition :: "booking_status option \<Rightarrow> booking_status option \<Rightarrow> bool" where
  "allowed_transition (Some Pending) (Some Confirmed) = True"
| "allowed_transition (Some Pending) (Some Cancelled) = True"
| "allowed_transition old new = False"

text \<open>
  The row that the specification expects from a submitted booking: the selected event,
  the signed-in user, the preferences of the form, and status \<open>pending\<close>.
\<close>

definition pending_booking :: "uuid \<Rightarrow> timestamptz \<Rightarrow> string \<Rightarrow> string \<Rightarrow> string \<Rightarrow> bookings_row" where
  "pending_booking gen now event_id user_id preferences =
     \<lparr>b_id = Some gen, b_event_id = Some event_id, b_user_id = Some user_id,
      b_status = Some Pending, b_preferences = Some preferences,
      b_created_at = Some now, b_updated_at = Some now\<rparr>"

section \<open>Example states\<close>

definition alice :: profiles_row where
  "alice = \<lparr>p_id = Some ''alice'', p_username = None, p_full_name = Some ''Alice'',
            p_avatar_url = None, p_is_admin = Some True,
            p_created_at = Some 1, p_updated_at = Some 1\<rparr>"

definition bob :: profiles_row where
  "bob = \<lparr>p_id = Some ''bob'', p_username = None, p_full_name = None,
          p_avatar_url = None, p_is_admin = Some False,
          p_created_at = Some 2, p_updated_at = Some 2\<rparr>"

definition gala :: events_row where
  "gala = \<lparr>e_id = Some ''gala'', e_title = Some ''Gala'', e_description = None,
           e_date = Some 20240901, e_time = Some 1900, e_location = Some ''Hall'',
           e_image_url = None, e_price = Some 1000, e_capacity = Some 2,
           e_category = None, e_created_by = Some ''alice'',
           e_created_at = Some 3, e_updated_at = Some 3\<rparr>"

definition bobs_booking :: bookings_row where
  "bobs_booking = \<lparr>b_id = Some ''bk1'', b_event_id = Some ''gala'', b_user_id = Some ''bob'',
                   b_status = Some Confirmed, b_preferences = Some ''vegan'',
                   b_created_at = Some 4, b_updated_at = Some 4\<rparr>"

definition alices_booking :: bookings_row where
  "alices_booking = \<lparr>b_id = Some ''bk2'', b_event_id = Some ''gala'', b_user_id = Some ''alice'',
                     b_status = Some Pending, b_preferences = None,
                     b_created_at = Some 5, b_updated_at = Some 5\<rparr>"

definition small_db :: db where
  "small_db = \<lparr>auth_users = [''alice'', ''bob''], profiles = [alice, bob],
               events = [gala], bookings = [bobs_booking, alices_booking]\<rparr>"

definition gen_e :: "nat \<Rightarrow> uuid" where
  "gen_e i = replicate (Suc i) (CHR ''e'')"

text \<open>WHERE and SET clauses used in the examples and in the statements below.\<close>

definition where_profile_id :: "uuid \<Rightarrow> profiles_row \<Rightarrow> bool" where
  "where_profile_id i p = (p_id p = Some i)"

definition set_is_admin :: "bool \<Rightarrow> profiles_row \<Rightarrow> profiles_row" where
  "set_is_admin v p = p\<lparr>p_is_admin := Some v\<rparr>"

definition where_event_id :: "uuid \<Rightarrow> events_row \<Rightarrow> bool" where
  "where_event_id i e = (e_id e = Some i)"

definition set_capacity :: "int \<Rightarrow> events_row \<Rightarrow> events_row" where
  "set_capacity v e = e\<lparr>e_capacity := Some v\<rparr>"

definition where_booking_id :: "uuid \<Rightarrow> bookings_row \<Rightarrow> bool" where
  "where_booking_id i b = (b_id b = Some i)"

definition set_status :: "booking_status option \<Rightarrow> bookings_row \<Rightarrow> bookings_row" where
  "set_status v b = b\<lparr>b_status := v\<rparr>"


definition party :: events_cols where
  "party = blank_event\<lparr>c_title := Val ''Party'', c_date := Val 20241001, c_time := Val 2100,
             c_location := Val ''Roof'', c_price := Val 500, c_capacity := Val 10\<rparr>"

definition party_row :: events_row where
  "party_row = \<lparr>e_id = Some ''party'', e_title = Some ''Party'', e_description = None,
                e_date = Some 20241001, e_time = Some 2100, e_location = Some ''Roof'',
                e_image_url = None, e_price = Some 500, e_capacity = Some 10,
                e_category = None, e_created_by = None,
                e_created_at = Some 9, e_updated_at = Some 9\<rparr>"

definition two_events :: db where
  "two_events = small_db\<lparr>events := [party_row, gala]\<rparr>"

definition refund :: events_cols where
  "refund = blank_event\<lparr>c_title := Val ''Refund'', c_date := Val 20241101, c_time := Val 1200,
              c_location := Val ''Nowhere'', c_price := Val (- 1), c_capacity := Val (- 1)\<rparr>"

text \<open>
  A new identity makes itself an administrator through the UPDATE policy of \<open>profiles\<close>,
  which covers every column, and inserts an event with a negative price and capacity.
\<close>

definition mallory_signs_up :: "db_op list" where
  "mallory_signs_up =
     [Sign_up 1 ''mallory'' None None,
      Update_profiles (Some ''mallory'') (where_profile_id ''mallory'') (set_is_admin True)]"

definition mallory_inserts :: "db_op list" where
  "mallory_inserts = mallory_signs_up @ [Insert_events (Some ''mallory'') 2 ''refund'' refund]"

definition mallory_parties :: "db_op list" where
  "mallory_parties = mallory_signs_up @
     [Insert_events (Some ''mallory'') 2 ''party'' party,
      Update_events (Some ''mallory'') (where_event_id ''party'') (set_capacity 0)]"

definition bob_user :: User where
  "bob_user = \<lparr>u_id = ''bob'', u_email = ''bob@example.org''\<rparr>"

definition vegan_form :: BookingFormData where
  "vegan_form = \<lparr>fd_name = ''Bob'', fd_email = ''bob@example.org'', fd_preferences = ''vegan''\<rparr>"

definition typing :: modal_state where
  "typing = \<lparr>formData = vegan_form, isSubmitting = False, isSuccess = False\<rparr>"

definition browsing :: app_state where
  "browsing = \<lparr>st_events = [], isModalOpen = True, isAuthModalOpen = False,
                selectedEventId = Some ''gala'', searchTerm = [], currentPage = 1,
                totalCount = 0, isLoading = False, toasts = []\<rparr>"

definition plain_date :: "date option \<Rightarrow> string" where
  "plain_date v = ''a date''"

definition oversold :: events_row where
  "oversold = gala\<lparr>e_capacity := Some (- 1)\<rparr>"

section \<open>Properties of the policies\<close>

subsection \<open>Auxiliary facts\<close>

lemma is_true_sql_eq: "is_true (sql_eq a b) \<longleftrightarrow> a \<noteq> None \<and> a = b"
  by (auto simp: is_true_def sql_eq_def split: option.splits)


lemma select_events_all: "select_events d uid = events d"
  by (simp add: select_events_def Events_are_viewable_by_everyone_def is_true_def)




lemma commit_same: "commit d = Inr d' \<Longrightarrow> d' = d"
  by (auto simp: commit_def split: option.splits)


subsection \<open>Events: public reads, administrator writes\<close>





lemma integrity_small_db: "integrity_error small_db = None"
  by (simp add: integrity_error_def not_null_ok_def range_ok_def unique_ok_def foreign_keys_ok_def
     small_db_def alice_def bob_def gala_def bobs_booking_def alices_booking_def is_set_def
     row_in_range_def in_decimal_10_2_def in_integer_def references_def)


lemmas small_defs = small_db_def alice_def bob_def gala_def bobs_booking_def alices_booking_def

lemmas integrity_defs = integrity_error_def not_null_ok_def range_ok_def row_in_range_def
  unique_ok_def foreign_keys_ok_def is_set_def in_decimal_10_2_def in_integer_def references_def
  commit_def








subsection \<open>Bookings: writes by the owner only\<close>

lemma bookings_update_target_iff:
  "bookings_update_target d uid wher b \<longleftrightarrow> uid \<noteq> None \<and> b_user_id b = uid \<and> wher b"
  by (auto simp: bookings_update_target_def Users_can_view_own_bookings_def
      Users_can_update_own_bookings_def is_true_sql_eq)

lemma update_bookings_Inr:
  assumes "update_bookings d uid wher setf = Inr d2"
  shows "bookings d2 = map (\<lambda>b. if bookings_update_target d uid wher b then setf b else b) (bookings d)"
    and "\<forall>b\<in>set (bookings d). bookings_update_target d uid wher b \<longrightarrow> b_user_id (setf b) = uid"
proof -
  have chk: "\<not> list_ex (\<lambda>b. bookings_update_target d uid wher b \<and>
                      \<not> is_true (Users_can_update_own_bookings d uid (setf b))) (bookings d)"
    using assms by (auto simp: update_bookings_def split: if_splits)
  then show "\<forall>b\<in>set (bookings d). bookings_update_target d uid wher b \<longrightarrow> b_user_id (setf b) = uid"
    by (auto simp: list_ex_iff Users_can_update_own_bookings_def is_true_sql_eq)
  from assms chk have "commit (d\<lparr>bookings :=
      map (\<lambda>b. if bookings_update_target d uid wher b then setf b else b) (bookings d)\<rparr>) = Inr d2"
    by (simp add: update_bookings_def)
  then show "bookings d2 = map (\<lambda>b. if bookings_update_target d uid wher b then setf b else b) (bookings d)"
    by (auto dest: commit_same)
qed



text \<open>The example of claim C2: \<open>alice\<close> is an administrator, and the bookings of \<open>bob\<close> are still closed to her.\<close>

lemma insert_bookings_own:
  "b_user_id (bookings_new_row now gen c) = Some u \<Longrightarrow>
   insert_bookings d (Some u) now gen c
     = commit (d\<lparr>bookings := bookings d @ [bookings_new_row now gen c]\<rparr>)"
  by (simp add: insert_bookings_def Let_def Users_can_insert_own_bookings_def is_true_def sql_eq_def)

lemma bookings_new_row_request:
  "bookings_new_row now gen (booking_request event_id user_id preferences)
     = pending_booking gen now event_id user_id preferences"
  by (simp add: bookings_new_row_def booking_request_def pending_booking_def)

lemma update_bookings_commit:
  "\<forall>b\<in>set (bookings d). uid \<noteq> None \<and> b_user_id b = uid \<and> wher b \<longrightarrow> b_user_id (setf b) = uid \<Longrightarrow>
   update_bookings d uid wher setf
     = commit (d\<lparr>bookings :=
         map (\<lambda>b. if uid \<noteq> None \<and> b_user_id b = uid \<and> wher b then setf b else b) (bookings d)\<rparr>)"
  by (auto simp: update_bookings_def bookings_update_target_iff list_ex_iff
      Users_can_update_own_bookings_def is_true_sql_eq)





text \<open>
  Claim C9. A SELECT on \<open>bookings\<close> by identity \<open>u\<close> returns a row of the table if and
  only if its \<open>user_id\<close> is \<open>u\<close>; without an identity it returns nothing.
\<close>

theorem select_bookings_own_only:
  "(b \<in> set (select_bookings d (Some u)) \<longleftrightarrow> b \<in> set (bookings d) \<and> b_user_id b = Some u) \<and>
   select_bookings d (Some u) = filter (\<lambda>b. b_user_id b = Some u) (bookings d) \<and>
   select_bookings d None = []"
proof -
  have "select_bookings d uid = filter (\<lambda>b. uid \<noteq> None \<and> b_user_id b = uid) (bookings d)" for uid
    unfolding select_bookings_def Users_can_view_own_bookings_def is_true_sql_eq
    by (rule filter_cong) auto
  then show ?thesis by (auto cong: filter_cong)
qed

theorem select_bookings_own_only_witness:
  "bobs_booking \<in> set (select_bookings small_db (Some ''bob'')) \<and>
   alices_booking \<notin> set (select_bookings small_db (Some ''bob'')) \<and>
   select_bookings small_db (Some ''bob'') = [bobs_booking] \<and>
   select_bookings small_db (Some ''alice'') = [alices_booking] \<and>
   select_bookings small_db None = []"
  using select_bookings_own_only [of bobs_booking small_db "''bob''"]
    select_bookings_own_only [of alices_booking small_db "''bob''"]
    select_bookings_own_only [of alices_booking small_db "''alice''"]
  by (simp add: small_defs)

section \<open>Properties of the client\<close>

subsection \<open>Submitting a booking\<close>

lemma integrity_None_iff:
  "integrity_error d = None \<longleftrightarrow> not_null_ok d \<and> range_ok d \<and> unique_ok d \<and> foreign_keys_ok d"
  by (auto simp: integrity_error_def)

lemma commit_ok: "integrity_error d = None \<Longrightarrow> commit d = Inr d"
  by (simp add: commit_def)

lemma integrity_add_booking:
  assumes "integrity_error d = None"
    and "b_id row = Some g" and "Some g \<notin> set (map b_id (bookings d))"
    and "references (b_event_id row) (map e_id (events d))"
    and "references (b_user_id row) (map p_id (profiles d))"
  shows "integrity_error (d\<lparr>bookings := bookings d @ [row]\<rparr>) = None"
  using assms
  by (simp add: integrity_None_iff not_null_ok_def range_ok_def unique_ok_def
      foreign_keys_ok_def is_set_def)

text \<open>
  Claim C3. A signed-in user \<open>u\<close> (the context holds \<open>u\<close> and the backend sees the
  identity \<open>u_id u\<close>) submits the form for a selected event whose id is not the empty
  string, as no uuid is. If the request reaches a consistent database in which the event
  and the profile of \<open>u\<close> exist, and the generated id is new, the promise resolves, no
  toast is shown, and the database gains exactly one row of \<open>bookings\<close>: that event, that
  user, the preferences of the form, status \<open>pending\<close>. Nothing is asked of the capacity
  of the event or of the bookings already there: submitting the same form again adds a
  second row for the same event and user.
\<close>

theorem booking_submit_inserts_pending_row:
  assumes "integrity_error d = None"
    and "event_id \<noteq> []"
    and "Some event_id \<in> set (map e_id (events d))"
    and "Some (u_id u) \<in> set (map p_id (profiles d))"
    and "Some gen \<notin> set (map b_id (bookings d))"
    and "Some gen' \<notin> set (map b_id (bookings d))"
    and "gen' \<noteq> gen"
  shows "handleBookingSubmit (Some u) (Some event_id) form (Some (u_id u)) True now gen d
           = (Resolved, [], d\<lparr>bookings := bookings d @
                [pending_booking gen now event_id (u_id u) (fd_preferences form)]\<rparr>) \<and>
         handleBookingSubmit (Some u) (Some event_id) form (Some (u_id u)) True now' gen'
             (d\<lparr>bookings := bookings d @
                [pending_booking gen now event_id (u_id u) (fd_preferences form)]\<rparr>)
           = (Resolved, [], d\<lparr>bookings := bookings d @
                [pending_booking gen now event_id (u_id u) (fd_preferences form),
                 pending_booking gen' now' event_id (u_id u) (fd_preferences form)]\<rparr>)"
proof -
  let ?r = "pending_booking gen now event_id (u_id u) (fd_preferences form)"
  let ?r' = "pending_booking gen' now' event_id (u_id u) (fd_preferences form)"
  let ?d1 = "d\<lparr>bookings := bookings d @ [?r]\<rparr>"
  have refs: "references (Some event_id) (map e_id (events d))"
    "references (Some (u_id u)) (map p_id (profiles d))"
    using assms(3,4) by (simp_all add: references_def)
  have ok1: "integrity_error ?d1 = None"
    using assms(1,5) refs by (intro integrity_add_booking [where g = gen]) (simp_all add: pending_booking_def)
  have ok2: "integrity_error (?d1\<lparr>bookings := bookings ?d1 @ [?r']\<rparr>) = None"
    using integrity_add_booking [of ?d1 ?r' gen', OF ok1] assms(6,7) refs
    by (simp add: pending_booking_def)
  have own: "b_user_id (pending_booking g t event_id (u_id u) p) = Some (u_id u)" for g t p
    by (simp add: pending_booking_def)
  have s1: "insert_bookings d (Some (u_id u)) now gen
              (booking_request event_id (u_id u) (fd_preferences form)) = Inr ?d1"
    using own ok1 by (simp add: insert_bookings_own bookings_new_row_request commit_ok)
  have s2: "insert_bookings ?d1 (Some (u_id u)) now' gen'
              (booking_request event_id (u_id u) (fd_preferences form))
            = Inr (?d1\<lparr>bookings := bookings ?d1 @ [?r']\<rparr>)"
    using own ok2 by (simp add: insert_bookings_own bookings_new_row_request commit_ok)
  show ?thesis
    using assms(2) s1 s2 by (simp add: handleBookingSubmit_def)
qed

theorem booking_submit_inserts_pending_row_witness:
  "handleBookingSubmit (Some bob_user) (Some ''gala'') vegan_form (Some ''bob'') True 7 ''bk3'' small_db
     = (Resolved, [], small_db\<lparr>bookings :=
          [bobs_booking, alices_booking, pending_booking ''bk3'' 7 ''gala'' ''bob'' ''vegan'']\<rparr>) \<and>
   handleBookingSubmit (Some bob_user) (Some ''gala'') vegan_form (Some ''bob'') True 8 ''bk4''
       (small_db\<lparr>bookings :=
          [bobs_booking, alices_booking, pending_booking ''bk3'' 7 ''gala'' ''bob'' ''vegan'']\<rparr>)
     = (Resolved, [], small_db\<lparr>bookings :=
          [bobs_booking, alices_booking, pending_booking ''bk3'' 7 ''gala'' ''bob'' ''vegan'',
           pending_booking ''bk4'' 8 ''gala'' ''bob'' ''vegan'']\<rparr>) \<and>
   e_capacity gala = Some 2"
proof -
  have h: "''gala'' \<noteq> []" "Some ''gala'' \<in> set (map e_id (events small_db))"
    "Some (u_id bob_user) \<in> set (map p_id (profiles small_db))"
    "Some ''bk3'' \<notin> set (map b_id (bookings small_db))"
    "Some ''bk4'' \<notin> set (map b_id (bookings small_db))" "''bk4'' \<noteq> ''bk3''"
    by (simp_all add: small_defs bob_user_def)
  have u: "u_id bob_user = ''bob''" "fd_preferences vegan_form = ''vegan''"
    "bookings small_db = [bobs_booking, alices_booking]"
    by (simp_all add: bob_user_def vegan_form_def small_db_def)
  show ?thesis
    using booking_submit_inserts_pending_row [OF integrity_small_db h, of vegan_form 7 8]
    by (simp add: u gala_def)
qed

subsection \<open>The status of a booking\<close>

text \<open>
  Claim C4. The enum of the database has the labels \<open>pending\<close>, \<open>confirmed\<close>,
  \<open>cancelled\<close>; the client's \<open>Booking\<close> has \<open>pending\<close>, \<open>confirmed\<close>, \<open>declined\<close>. The
  two sets differ: \<open>declined\<close> is no label of the enum, and \<open>cancelled\<close> is no status of
  the client's type.
\<close>

theorem Booking_status_differs_from_enum:
  "Booking_status_label Booking_declined = ''declined'' \<and>
   ''declined'' \<notin> set booking_status_labels \<and>
   booking_status_label Cancelled = ''cancelled'' \<and>
   ''cancelled'' \<notin> set Booking_status_labels \<and>
   set (map Booking_status_label [Booking_pending, Booking_confirmed, Booking_declined])
     \<noteq> set (map booking_status_label [Pending, Confirmed, Cancelled])"
proof -
  have "''declined'' \<in> set (map Booking_status_label [Booking_pending, Booking_confirmed, Booking_declined])"
    by simp
  moreover have "''declined'' \<notin> set (map booking_status_label [Pending, Confirmed, Cancelled])"
    by simp
  ultimately have "set (map Booking_status_label [Booking_pending, Booking_confirmed, Booking_declined])
     \<noteq> set (map booking_status_label [Pending, Confirmed, Cancelled])"
    by metis
  then show ?thesis
    by (simp add: booking_status_labels_def Booking_status_labels_def)
qed

subsection \<open>A failed submission\<close>

text \<open>
  Claim C8. When the promise of \<open>onSubmit\<close> rejects, \<open>handleSubmit\<close> leaves the modal in
  the state it had, with \<open>isSubmitting\<close> false, and sets no timer: the form data and
  \<open>isSuccess\<close> are unchanged, a modal that showed the form shows it again with the same
  values and the submit button enabled. Inside \<open>App\<close>, the state of \<open>App\<close> changes only by
  the toast, so \<open>isModalOpen\<close> is as before, and the database is untouched.
\<close>

theorem failed_submission_keeps_modal_state:
  "handleSubmit m (Rejected e) = (m\<lparr>isSubmitting := False\<rparr>, []) \<and>
   formData (fst (handleSubmit m (Rejected e))) = formData m \<and>
   isSuccess (fst (handleSubmit m (Rejected e))) = isSuccess m \<and>
   \<not> isSubmitting (fst (handleSubmit m (Rejected e))) \<and>
   (BookingModal isOpen m = Form_view f b \<longrightarrow>
      BookingModal isOpen (fst (handleSubmit m (Rejected e))) = Form_view f False) \<and>
   (fst (handleBookingSubmit user (selectedEventId st) (formData m) session net now gen d) = Rejected e \<longrightarrow>
      submit_form user session net now gen (st, m, d)
        = ((st\<lparr>toasts := toasts st @ [''Failed to submit booking'']\<rparr>, m\<lparr>isSubmitting := False\<rparr>, d), []))"
proof -
  have hs: "handleSubmit m (Rejected e) = (m\<lparr>isSubmitting := False\<rparr>, [])"
    by (simp add: handleSubmit_def)
  have view: "BookingModal isOpen (m\<lparr>isSubmitting := False\<rparr>) = Form_view f False"
    if "BookingModal isOpen m = Form_view f b"
    using that by (auto simp: BookingModal_def split: if_splits)
  have sub: "submit_form user session net now gen (st, m, d)
        = ((st\<lparr>toasts := toasts st @ [''Failed to submit booking'']\<rparr>, m\<lparr>isSubmitting := False\<rparr>, d), [])"
    if "fst (handleBookingSubmit user (selectedEventId st) (formData m) session net now gen d) = Rejected e"
    using that
    by (auto simp: submit_form_def handleBookingSubmit_def handleSubmit_def
        split: option.splits if_splits sum.splits)
  show ?thesis
    using view sub by (simp add: hs)
qed

theorem failed_submission_keeps_modal_state_witness:
  "BookingModal (isModalOpen browsing) typing = Form_view vegan_form False \<and>
   handleBookingSubmit (Some bob_user) (selectedEventId browsing) (formData typing) None True 7 ''bk3'' small_db
     = (Rejected Row_level_security_violation, [''Failed to submit booking''], small_db) \<and>
   submit_form (Some bob_user) None True 7 ''bk3'' (browsing, typing, small_db)
     = ((browsing\<lparr>toasts := [''Failed to submit booking'']\<rparr>, typing, small_db), []) \<and>
   BookingModal (isModalOpen (browsing\<lparr>toasts := [''Failed to submit booking'']\<rparr>)) typing
     = Form_view vegan_form False"
proof -
  have v: "BookingModal True typing = Form_view vegan_form False"
    by (simp add: BookingModal_def typing_def)
  have r: "handleBookingSubmit (Some bob_user) (selectedEventId browsing) (formData typing) None True 7 ''bk3'' small_db
     = (Rejected Row_level_security_violation, [''Failed to submit booking''], small_db)"
    by (simp add: handleBookingSubmit_def browsing_def insert_bookings_def Let_def
        Users_can_insert_own_bookings_def is_true_def sql_eq_def)
  have t: "typing\<lparr>isSubmitting := False\<rparr> = typing" "isModalOpen browsing = True"
    "toasts browsing = []"
    by (simp_all add: typing_def browsing_def)
  show ?thesis
    using failed_submission_keeps_modal_state
      [of typing Row_level_security_violation True vegan_form False "Some bob_user" browsing
          None True 7 "''bk3''" small_db]
      v r t
    by simp
qed

subsection \<open>The event card\<close>

text \<open>
  Claim C10, amended. Every event that the transformation produces has
  \<open>registeredCount = 0\<close>. For an event whose capacity is a number \<open>c\<close> (the column is NOT
  NULL), the button of its card is disabled, and labelled \<open>Sold Out\<close>, if and only if
  \<open>c \<le> 0\<close>.
\<close>

theorem registeredCount_zero_sold_out_iff_capacity_le_zero:
  "ev_registeredCount (transformedEvent toLocaleDateString event) = 0 \<and>
   (\<forall>ev \<in> set (transformedEvents toLocaleDateString data). ev_registeredCount ev = 0) \<and>
   (e_capacity event = Some c \<longrightarrow>
      (EventCard_disabled (transformedEvent toLocaleDateString event) \<longleftrightarrow> c \<le> 0) \<and>
      (EventCard_label (transformedEvent toLocaleDateString event) = ''Sold Out'' \<longleftrightarrow> c \<le> 0))"
  by (auto simp: transformedEvent_def transformedEvents_def EventCard_disabled_def
      EventCard_label_def js_ge_def)

theorem registeredCount_zero_sold_out_iff_capacity_le_zero_witness:
  "ev_registeredCount (transformedEvent plain_date gala) = 0 \<and>
   \<not> EventCard_disabled (transformedEvent plain_date gala) \<and>
   EventCard_label (transformedEvent plain_date gala) = ''Book Now'' \<and>
   EventCard_disabled (transformedEvent plain_date (gala\<lparr>e_capacity := Some 0\<rparr>)) \<and>
   EventCard_label (transformedEvent plain_date (gala\<lparr>e_capacity := Some 0\<rparr>)) = ''Sold Out''"
proof -
  have c: "e_capacity gala = Some 2" "e_capacity (gala\<lparr>e_capacity := Some 0\<rparr>) = Some 0"
    by (simp_all add: gala_def)
  have l: "EventCard_label ev = ''Book Now'' \<longleftrightarrow> EventCard_label ev \<noteq> ''Sold Out''" for ev
    by (simp add: EventCard_label_def)
  show ?thesis
    using registeredCount_zero_sold_out_iff_capacity_le_zero [of plain_date gala "[gala]" 2]
      registeredCount_zero_sold_out_iff_capacity_le_zero
        [of plain_date "gala\<lparr>e_capacity := Some 0\<rparr>" "[gala]" 0] c
    by (simp add: l)
qed

text \<open>
  Claim C10 as stated (sold out if and only if the capacity is 0) fails for a negative
  capacity, which the schema admits: the card of an event with capacity \<open>-1\<close> is sold
  out.
\<close>

theorem sold_out_with_nonzero_capacity:
  "e_capacity oversold = Some (- 1) \<and>
   ev_capacity (transformedEvent plain_date oversold) \<noteq> Some 0 \<and>
   EventCard_disabled (transformedEvent plain_date oversold) \<and>
   EventCard_label (transformedEvent plain_date oversold) = ''Sold Out''"
  by (simp add: oversold_def gala_def transformedEvent_def EventCard_disabled_def
      EventCard_label_def js_ge_def)

section \<open>Properties of the data model\<close>

subsection \<open>Capacity and price\<close>

lemma commit_Inr_iff: "commit d = Inr d' \<longleftrightarrow> d' = d \<and> integrity_error d = None"
  by (auto simp: commit_def split: option.splits)

lemma insert_events_Inr:
  assumes "insert_events d uid now gen c = Inr d'"
  shows "d' = d\<lparr>events := events d @ [events_new_row now gen c]\<rparr>" and "integrity_error d' = None"
  using assms by (auto simp: insert_events_def Let_def commit_Inr_iff split: if_splits)

lemma update_events_Inr:
  assumes "update_events d uid wher setf = Inr d'"
  shows "events d' = map (\<lambda>e. if events_update_target d uid wher e then setf e else e) (events d)"
    and "integrity_error d' = None"
  using assms by (auto simp: update_events_def commit_Inr_iff split: if_splits)

lemma db_step_integrity: "db_step d x = Inr d' \<Longrightarrow> integrity_error d' = None"
  by (cases x)
     (auto simp: on_auth_user_created_def update_profiles_def insert_events_def update_events_def
        insert_bookings_def update_bookings_def Let_def commit_Inr_iff split: if_splits)

lemma db_step_other_events:
  assumes "db_step d x = Inr d'"
    and "\<And>uid now gen c. x \<noteq> Insert_events uid now gen c"
    and "\<And>uid wher setf. x \<noteq> Update_events uid wher setf"
  shows "events d' = events d"
  using assms
  by (cases x)
     (auto simp: on_auth_user_created_def handle_new_user_def update_profiles_def
        insert_bookings_def update_bookings_def Let_def commit_Inr_iff split: if_splits)

lemma resolve_nonneg:
  "col_nonneg c \<Longrightarrow> is_set (resolve (Some 0) c) \<Longrightarrow> nonneg (resolve (Some 0) c)"
  by (cases c) (simp_all add: col_nonneg_def is_set_def nonneg_def)

lemma integrity_events_set:
  "integrity_error d = None \<Longrightarrow> e \<in> set (events d) \<Longrightarrow>
   is_set (e_capacity e) \<and> is_set (e_price e) \<and> in_integer (e_capacity e) \<and> in_decimal_10_2 (e_price e)"
  by (auto simp: integrity_None_iff not_null_ok_def range_ok_def row_in_range_def list_all_iff)

lemma db_step_nonneg:
  assumes "db_step d x = Inr d'" and "writes_nonneg x" and "events_nonneg d"
  shows "events_nonneg d'"
proof (cases x)
  case (Insert_events uid now gen c)
  with assms(1) have r: "insert_events d uid now gen c = Inr d'" by simp
  let ?row = "events_new_row now gen c"
  have ev: "events d' = events d @ [?row]"
    using insert_events_Inr(1) [OF r] by simp
  then have "?row \<in> set (events d')" by simp
  then have "is_set (e_capacity ?row)" "is_set (e_price ?row)"
    using integrity_events_set [OF insert_events_Inr(2) [OF r]] by blast+
  then have "row_nonneg ?row"
    using assms(2) Insert_events
    by (simp add: row_nonneg_def events_new_row_def resolve_nonneg)
  then show ?thesis
    using assms(3) by (simp add: events_nonneg_def ev)
next
  case (Update_events uid wher setf)
  with assms(1) have r: "update_events d uid wher setf = Inr d'" by simp
  have keep: "row_nonneg e \<Longrightarrow> row_nonneg (setf e)" for e
    using assms(2) Update_events by simp
  show ?thesis
    using assms(3) keep
    by (auto simp: events_nonneg_def update_events_Inr(1) [OF r] list_all_iff)
qed (use assms db_step_other_events [OF assms(1)] in \<open>simp_all add: events_nonneg_def\<close>)

lemma db_run_integrity:
  "db_run r ops = Inr d \<Longrightarrow> (\<And>d0. r = Inr d0 \<Longrightarrow> integrity_error d0 = None) \<Longrightarrow>
   integrity_error d = None"
proof (induction ops arbitrary: r)
  case Nil
  then show ?case by simp
next
  case (Cons x xs)
  show ?case
  proof (cases r)
    case (Inl e)
    with Cons.prems(1) show ?thesis by simp
  next
    case (Inr d0)
    with Cons.prems(1) have "db_run (db_step d0 x) xs = Inr d" by simp
    then show ?thesis
      by (rule Cons.IH) (rule db_step_integrity)
  qed
qed

lemma db_run_nonneg:
  "db_run r ops = Inr d \<Longrightarrow> list_all writes_nonneg ops \<Longrightarrow>
   (\<And>d0. r = Inr d0 \<Longrightarrow> events_nonneg d0) \<Longrightarrow> events_nonneg d"
proof (induction ops arbitrary: r)
  case Nil
  then show ?case by simp
next
  case (Cons x xs)
  show ?case
  proof (cases r)
    case (Inl e)
    with Cons.prems(1) show ?thesis by simp
  next
    case (Inr d0)
    with Cons.prems(1) have run: "db_run (db_step d0 x) xs = Inr d" by simp
    have "events_nonneg d1" if "db_step d0 x = Inr d1" for d1
      using that Cons.prems(2) Cons.prems(3) [OF Inr] by (auto intro: db_step_nonneg)
    with run Cons.prems(2) show ?thesis
      by (intro Cons.IH [of "db_step d0 x"]) simp_all
  qed
qed

lemma migration_nonneg: "migration now gen = Inr d0 \<Longrightarrow> events_nonneg d0"
  by (auto simp: migration_def commit_Inr_iff events_nonneg_def empty_db_def sample_events_def
      sample_event_def blank_event_def events_new_row_def row_nonneg_def nonneg_def)

lemma migration_integrity: "migration now gen = Inr d0 \<Longrightarrow> integrity_error d0 = None"
  by (auto simp: migration_def commit_Inr_iff)

text \<open>
  Claim C5, amended. In every state that a sequence of statements reaches from the
  migration, every row of \<open>events\<close> has a capacity and a price that are not NULL and lie
  in the ranges of their column types. The schema has no CHECK constraint, so it does
  not keep them from being negative: \<open>capacity \<ge> 0\<close> and \<open>price \<ge> 0\<close> hold in every row as
  long as no statement of the sequence writes a negative capacity or price. They hold
  for the sample rows of the migration.
\<close>

theorem nonneg_kept_by_nonneg_writes:
  assumes "db_run (migration now gen) ops = Inr d"
  shows "list_all (\<lambda>e. is_set (e_capacity e) \<and> is_set (e_price e) \<and>
                       in_integer (e_capacity e) \<and> in_decimal_10_2 (e_price e)) (events d) \<and>
         (list_all writes_nonneg ops \<longrightarrow> events_nonneg d)"
proof -
  have "integrity_error d = None"
    using assms by (rule db_run_integrity) (rule migration_integrity)
  then have a: "list_all (\<lambda>e. is_set (e_capacity e) \<and> is_set (e_price e) \<and>
                       in_integer (e_capacity e) \<and> in_decimal_10_2 (e_price e)) (events d)"
    unfolding list_all_iff using integrity_events_set by blast
  have b: "events_nonneg d" if "list_all writes_nonneg ops"
    using assms that by (rule db_run_nonneg) (rule migration_nonneg)
  show ?thesis using a b by simp
qed


text \<open>Running the example sequences from the migration.\<close>

lemmas run_defs = migration_def mallory_inserts_def mallory_signs_up_def
  on_auth_user_created_def handle_new_user_def update_profiles_def profiles_update_target_def
  Public_profiles_are_viewable_by_everyone_def Users_can_update_own_profile_def
  insert_events_def Admins_can_insert_events_def exists_admin_profile_def select_profiles_def
  sql_eq_def sql_and_def is_true_def where_profile_id_def set_is_admin_def
  empty_db_def sample_events_def sample_event_def blank_event_def events_new_row_def
  gen_e_def refund_def Let_def

lemma mallory_signs_up_run:
  "\<not> isl (db_run (migration 0 gen_e) mallory_signs_up) \<and>
   events_nonneg (projr (db_run (migration 0 gen_e) mallory_signs_up))"
  by (simp add: run_defs integrity_defs events_nonneg_def row_nonneg_def nonneg_def)

text \<open>
  Claim C5 as stated fails: from the migration, a new identity signs up, sets \<open>is_admin\<close>
  on its own profile, and inserts an event with capacity \<open>-1\<close> and price \<open>-0.01\<close>. Every
  statement succeeds, and the state reached has a row with a negative capacity and price.
\<close>

theorem negative_capacity_and_price_reachable:
  "\<not> isl (db_run (migration 0 gen_e) mallory_signs_up) \<and>
   events_nonneg (projr (db_run (migration 0 gen_e) mallory_signs_up)) \<and>
   \<not> isl (db_run (migration 0 gen_e) mallory_inserts) \<and>
   \<not> events_nonneg (projr (db_run (migration 0 gen_e) mallory_inserts)) \<and>
   e_capacity (last (events (projr (db_run (migration 0 gen_e) mallory_inserts)))) = Some (- 1) \<and>
   e_price (last (events (projr (db_run (migration 0 gen_e) mallory_inserts)))) = Some (- 1)"
proof -
  have "\<not> isl (db_run (migration 0 gen_e) mallory_inserts) \<and>
   \<not> events_nonneg (projr (db_run (migration 0 gen_e) mallory_inserts)) \<and>
   e_capacity (last (events (projr (db_run (migration 0 gen_e) mallory_inserts)))) = Some (- 1) \<and>
   e_price (last (events (projr (db_run (migration 0 gen_e) mallory_inserts)))) = Some (- 1)"
    by (simp add: run_defs integrity_defs events_nonneg_def row_nonneg_def nonneg_def)
  then show ?thesis
    using mallory_signs_up_run by simp
qed


lemma mallory_parties_run: "\<not> isl (db_run (migration 0 gen_e) mallory_parties)"
  by (simp add: run_defs mallory_parties_def party_def update_events_def events_update_target_def
      Events_are_viewable_by_everyone_def Admins_can_update_events_def where_event_id_def
      set_capacity_def integrity_defs)

theorem nonneg_kept_by_nonneg_writes_witness:
  "\<not> isl (db_run (migration 0 gen_e) mallory_parties) \<and>
   list_all writes_nonneg mallory_parties \<and>
   events_nonneg (projr (db_run (migration 0 gen_e) mallory_parties)) \<and>
   length (events (projr (db_run (migration 0 gen_e) mallory_parties))) = 8"
proof -
  let ?d = "projr (db_run (migration 0 gen_e) mallory_parties)"
  have run: "db_run (migration 0 gen_e) mallory_parties = Inr ?d"
    using mallory_parties_run by (cases "db_run (migration 0 gen_e) mallory_parties") simp_all
  have w: "list_all writes_nonneg mallory_parties"
    by (simp add: mallory_parties_def mallory_signs_up_def party_def blank_event_def col_nonneg_def
        set_capacity_def row_nonneg_def nonneg_def)
  have n: "length (events ?d) = 8"
    by (simp add: run_defs mallory_parties_def party_def update_events_def events_update_target_def
      Events_are_viewable_by_everyone_def Admins_can_update_events_def where_event_id_def
      set_capacity_def integrity_defs)
  show ?thesis
    using nonneg_kept_by_nonneg_writes [OF run] mallory_parties_run w n by simp
qed

subsection \<open>The status of a booking over time\<close>

lemma integrity_bookings_map:
  assumes "\<And>b. b_id (g b) = b_id b" "\<And>b. b_event_id (g b) = b_event_id b"
    "\<And>b. b_user_id (g b) = b_user_id b"
  shows "integrity_error (d\<lparr>bookings := map g (bookings d)\<rparr>) = integrity_error d"
  by (simp add: integrity_error_def not_null_ok_def range_ok_def unique_ok_def
      foreign_keys_ok_def list_all_iff assms o_def)

lemma booking_by_id:
  assumes "integrity_error d = None" "b \<in> set (bookings d)" "x \<in> set (bookings d)"
    "b_id x = b_id b"
  shows "x = b"
proof -
  have "distinct (map b_id (bookings d))"
    using assms(1) by (simp add: integrity_None_iff unique_ok_def)
  then have "inj_on b_id (set (bookings d))"
    by (simp add: distinct_map)
  then show ?thesis
    using assms(2,3,4) by (auto dest: inj_onD)
qed

text \<open>
  Claim C6, amended. The database restricts who changes the status of a booking, not
  which changes occur. An UPDATE changes the status of a row of \<open>bookings\<close> only if the
  acting identity is the \<open>user_id\<close> of the row; and in a consistent database that identity
  can set the status of its row to any value of the enum, or to NULL, whatever the status
  was.
\<close>

theorem status_changes_by_owner_unrestricted:
  "(update_bookings d uid wher setf = Inr d' \<longrightarrow>
      (\<forall>i < length (bookings d). b_status (bookings d' ! i) \<noteq> b_status (bookings d ! i) \<longrightarrow>
         uid \<noteq> None \<and> b_user_id (bookings d ! i) = uid)) \<and>
   (integrity_error d = None \<and> b \<in> set (bookings d) \<and> b_id b = Some i \<and> b_user_id b = Some u \<longrightarrow>
      update_bookings d (Some u) (where_booking_id i) (set_status s)
        = Inr (d\<lparr>bookings := map (\<lambda>x. if x = b then b\<lparr>b_status := s\<rparr> else x) (bookings d)\<rparr>))"
proof -
  have a: "uid \<noteq> None \<and> b_user_id (bookings d ! i) = uid"
    if r: "update_bookings d uid wher setf = Inr d'" and i: "i < length (bookings d)"
      and ne: "b_status (bookings d' ! i) \<noteq> b_status (bookings d ! i)" for i
  proof -
    have "bookings_update_target d uid wher (bookings d ! i)"
      using i ne by (auto simp: update_bookings_Inr(1) [OF r] split: if_splits)
    then show ?thesis by (simp add: bookings_update_target_iff)
  qed
  have b: "update_bookings d (Some u) (where_booking_id i) (set_status s)
        = Inr (d\<lparr>bookings := map (\<lambda>x. if x = b then b\<lparr>b_status := s\<rparr> else x) (bookings d)\<rparr>)"
    if ok: "integrity_error d = None" and m: "b \<in> set (bookings d)" and bi: "b_id b = Some i"
      and bu: "b_user_id b = Some u"
  proof -
    have same: "map (\<lambda>x. if Some u \<noteq> None \<and> b_user_id x = Some u \<and> where_booking_id i x
                          then set_status s x else x) (bookings d)
                = map (\<lambda>x. if x = b then b\<lparr>b_status := s\<rparr> else x) (bookings d)"
    proof (rule map_cong [OF refl])
      fix x assume x: "x \<in> set (bookings d)"
      show "(if Some u \<noteq> None \<and> b_user_id x = Some u \<and> where_booking_id i x
             then set_status s x else x) = (if x = b then b\<lparr>b_status := s\<rparr> else x)"
      proof (cases "x = b")
        case True
        then show ?thesis
          using bi bu by (simp add: where_booking_id_def set_status_def)
      next
        case False
        then have "b_id x \<noteq> Some i"
          using booking_by_id [OF ok m x] bi by metis
        with False show ?thesis
          by (simp add: where_booking_id_def)
      qed
    qed
    have keep: "integrity_error (d\<lparr>bookings := map (\<lambda>x. if x = b then b\<lparr>b_status := s\<rparr> else x) (bookings d)\<rparr>) = None"
      using ok by (subst integrity_bookings_map) auto
    have "update_bookings d (Some u) (where_booking_id i) (set_status s)
          = commit (d\<lparr>bookings := map (\<lambda>x. if Some u \<noteq> None \<and> b_user_id x = Some u \<and> where_booking_id i x
                          then set_status s x else x) (bookings d)\<rparr>)"
      by (rule update_bookings_commit) (simp add: set_status_def)
    then show ?thesis
      using keep by (simp only: same commit_ok)
  qed
  show ?thesis
    using a b by blast
qed

theorem status_changes_by_owner_unrestricted_witness:
  "update_bookings small_db (Some ''bob'') (where_booking_id ''bk1'') (set_status None)
     = Inr (small_db\<lparr>bookings := [bobs_booking\<lparr>b_status := None\<rparr>, alices_booking]\<rparr>) \<and>
   update_bookings small_db (Some ''alice'') (where_booking_id ''bk2'') (set_status (Some Confirmed))
     = Inr (small_db\<lparr>bookings := [bobs_booking, alices_booking\<lparr>b_status := Some Confirmed\<rparr>]\<rparr>) \<and>
   b_user_id (bookings small_db ! 1) = Some ''alice''"
proof -
  have h: "bobs_booking \<in> set (bookings small_db)" "b_id bobs_booking = Some ''bk1''"
    "b_user_id bobs_booking = Some ''bob''"
    "alices_booking \<in> set (bookings small_db)" "b_id alices_booking = Some ''bk2''"
    "b_user_id alices_booking = Some ''alice''"
    by (simp_all add: small_db_def bobs_booking_def alices_booking_def)
  have ne: "alices_booking \<noteq> bobs_booking"
    by (simp add: bobs_booking_def alices_booking_def)
  have bk: "bookings small_db = [bobs_booking, alices_booking]"
    by (simp add: small_db_def)
  have st: "b_status (alices_booking\<lparr>b_status := Some Confirmed\<rparr>) \<noteq> b_status alices_booking"
    by (simp add: alices_booking_def)
  have u2: "update_bookings small_db (Some ''alice'') (where_booking_id ''bk2'') (set_status (Some Confirmed))
     = Inr (small_db\<lparr>bookings := [bobs_booking, alices_booking\<lparr>b_status := Some Confirmed\<rparr>]\<rparr>)"
    using status_changes_by_owner_unrestricted
      [of small_db None "where_booking_id ''bk2''" "set_status None" small_db alices_booking
          "''bk2''" "''alice''" "Some Confirmed"] integrity_small_db h ne
    by (simp add: bk)
  show ?thesis
    using status_changes_by_owner_unrestricted
      [of small_db "Some ''alice''" "where_booking_id ''bk2''" "set_status (Some Confirmed)"
          "small_db\<lparr>bookings := [bobs_booking, alices_booking\<lparr>b_status := Some Confirmed\<rparr>]\<rparr>"
          bobs_booking "''bk1''" "''bob''" None] integrity_small_db h ne u2 st
    by (simp add: bk)
qed

text \<open>
  Claim C6 as stated fails: the owner of a confirmed booking sets it back to \<open>pending\<close>,
  which is none of the two transitions of the specification.
\<close>

theorem confirmed_booking_returns_to_pending:
  "b_status bobs_booking = Some Confirmed \<and>
   update_bookings small_db (Some ''bob'') (where_booking_id ''bk1'') (set_status (Some Pending))
     = Inr (small_db\<lparr>bookings := [bobs_booking\<lparr>b_status := Some Pending\<rparr>, alices_booking]\<rparr>) \<and>
   \<not> allowed_transition (Some Confirmed) (Some Pending)"
proof -
  have "update_bookings small_db (Some ''bob'') (where_booking_id ''bk1'') (set_status (Some Pending))
     = Inr (small_db\<lparr>bookings := [bobs_booking\<lparr>b_status := Some Pending\<rparr>, alices_booking]\<rparr>)"
    by (subst update_bookings_commit)
       (simp_all add: where_booking_id_def set_status_def integrity_defs small_defs)
  then show ?thesis by (simp add: bobs_booking_def)
qed

section \<open>Listing events by page\<close>

lemma totalPages_bounds: "9 * (totalPages n - 1) < n \<and> n \<le> 9 * totalPages n"
proof -
  let ?k = "totalPages n"
  have up: "real_of_int n \<le> of_int ?k * 9"
    using ceiling_divide_upper [of "9::real" "real_of_int n"]
    by (simp add: totalPages_def ITEMS_PER_PAGE_def)
  have lo: "(of_int ?k - 1) * 9 < real_of_int n"
    using ceiling_divide_lower [of "9::real" "real_of_int n"]
    by (simp add: totalPages_def ITEMS_PER_PAGE_def)
  from up have "real_of_int n \<le> real_of_int (?k * 9)" by simp
  then have "n \<le> ?k * 9" by (simp only: of_int_le_iff)
  moreover from lo have "real_of_int ((?k - 1) * 9) < real_of_int n" by simp
  then have "(?k - 1) * 9 < n" by (simp only: of_int_less_iff)
  ultimately show ?thesis by simp
qed

lemma totalPages_7: "totalPages 7 = 1"
  by (simp add: totalPages_def ITEMS_PER_PAGE_def)

lemma run_events_page_query_page:
  assumes "1 \<le> p"
  shows "run_events_page_query d uid (events_page_query p)
           = Inr (take 9 (drop (nat ((p - 1) * 9)) (sort_key date_key (events d))))"
  using assms
  by (simp add: run_events_page_query_def events_page_query_def ITEMS_PER_PAGE_def
      select_events_all algebra_simps)

lemma sorted_page: "sorted (map date_key (take n (drop k (sort_key date_key xs))))"
proof -
  have "sorted (map date_key (sort_key date_key xs))"
    by (rule sorted_sort_key)
  then have "sorted (take n (drop k (map date_key (sort_key date_key xs))))"
    by (intro sorted_wrt_take sorted_wrt_drop)
  then show ?thesis by (simp add: take_map drop_map)
qed

lemma migration_count: "migration now gen = Inr d0 \<Longrightarrow> count_events d0 uid = 7"
  by (auto simp: migration_def commit_Inr_iff count_events_def select_events_all empty_db_def
      sample_events_def)

text \<open>
  Claim C7. For a current page \<open>p \<ge> 1\<close>, \<open>fetchEvents\<close> requests the offsets \<open>(p - 1) * 9\<close>
  to \<open>p * 9 - 1\<close> in ascending order of \<open>date\<close>; the backend answers with the rows at those
  offsets of the table sorted by date, at most nine, and the list of the page is their
  transformation. The count is a request of its own and is the number of rows of the
  table, whatever the page. The number of pages is the ceiling of the count divided by
  nine: the least \<open>k\<close> with \<open>n \<le> 9 * k\<close>. For 7 rows, and so for the seven sample rows of
  the migration, it is 1.
\<close>

theorem events_fetched_by_page_of_nine:
  assumes "1 \<le> p"
  shows "q_from (events_page_query p) = (p - 1) * 9 \<and>
         q_to (events_page_query p) = p * 9 - 1 \<and>
         q_order (events_page_query p) = ''date'' \<and> q_ascending (events_page_query p) \<and>
         run_events_page_query d uid (events_page_query p)
           = Inr (take 9 (drop (nat ((p - 1) * 9)) (sort_key date_key (events d)))) \<and>
         sorted (map date_key (take 9 (drop (nat ((p - 1) * 9)) (sort_key date_key (events d))))) \<and>
         count_events d uid = int (length (events d)) \<and>
         (currentPage st = p \<longrightarrow>
            totalCount (fetchEvents toLocaleDateString d uid True True st) = int (length (events d)) \<and>
            st_events (fetchEvents toLocaleDateString d uid True True st)
              = transformedEvents toLocaleDateString
                  (take 9 (drop (nat ((p - 1) * 9)) (sort_key date_key (events d))))) \<and>
         9 * (totalPages n - 1) < n \<and> n \<le> 9 * totalPages n \<and>
         totalPages 7 = 1 \<and>
         (migration now gen = Inr d0 \<longrightarrow> totalPages (count_events d0 uid) = 1)"
proof -
  have q: "q_from (events_page_query p) = (p - 1) * 9 \<and>
         q_to (events_page_query p) = p * 9 - 1 \<and>
         q_order (events_page_query p) = ''date'' \<and> q_ascending (events_page_query p)"
    by (simp add: events_page_query_def ITEMS_PER_PAGE_def)
  note r = run_events_page_query_page [OF assms, of d uid]
  have c: "count_events d uid = int (length (events d))"
    by (simp add: count_events_def select_events_all)
  have f: "totalCount (fetchEvents toLocaleDateString d uid True True st) = int (length (events d)) \<and>
            st_events (fetchEvents toLocaleDateString d uid True True st)
              = transformedEvents toLocaleDateString
                  (take 9 (drop (nat ((p - 1) * 9)) (sort_key date_key (events d))))"
    if "currentPage st = p"
    using that by (simp add: fetchEvents_def Let_def r c)
  have m: "totalPages (count_events d0 uid) = 1" if "migration now gen = Inr d0"
    using migration_count [OF that] by (simp add: totalPages_7)
  show ?thesis
    using q r sorted_page c f totalPages_bounds totalPages_7 m by simp
qed

lemma migration_gen_e: "\<not> isl (migration 0 gen_e)"
  by (simp add: migration_def empty_db_def sample_events_def sample_event_def blank_event_def
      events_new_row_def gen_e_def integrity_defs)

theorem events_fetched_by_page_of_nine_witness:
  "run_events_page_query two_events None (events_page_query 1) = Inr [gala, party_row] \<and>
   run_events_page_query two_events None (events_page_query 2) = Inr [] \<and>
   st_events (fetchEvents plain_date two_events None True True browsing)
     = [transformedEvent plain_date gala, transformedEvent plain_date party_row] \<and>
   totalCount (fetchEvents plain_date two_events None True True browsing) = 2 \<and>
   totalPages 2 = 1 \<and> totalPages 9 = 1 \<and> totalPages 10 = 2 \<and> totalPages 0 = 0 \<and>
   \<not> isl (migration 0 gen_e) \<and>
   totalPages (count_events (projr (migration 0 gen_e)) None) = 1"
proof -
  have m: "migration 0 gen_e = Inr (projr (migration 0 gen_e))"
    using migration_gen_e by (cases "migration 0 gen_e") simp_all
  have s: "sort_key date_key (events two_events) = [gala, party_row]"
    by (simp add: two_events_def date_key_def gala_def party_row_def)
  have p: "currentPage browsing = 1"
    by (simp add: browsing_def)
  have t: "totalPages 2 = 1" "totalPages 9 = 1" "totalPages 10 = 2" "totalPages 0 = 0"
    by (simp_all add: totalPages_def ITEMS_PER_PAGE_def)
  have l: "length (events two_events) = 2"
    by (simp add: two_events_def)
  show ?thesis
    using events_fetched_by_page_of_nine
        [of 1 two_events None browsing plain_date 2 0 gen_e "projr (migration 0 gen_e)"]
      events_fetched_by_page_of_nine
        [of 2 two_events None browsing plain_date 10 0 gen_e "projr (migration 0 gen_e)"]
      m migration_gen_e p
    by (simp add: s t l transformedEvents_def)
qed

end
